theory Spec2Isabelle
  imports Main
begin

section \<open>The in-memory ActivityPub database of mastogon (internal/db/db.go)\<close>

text \<open>
  The Go package \<^verbatim>\<open>db\<close> keeps two \<^verbatim>\<open>sync.Map\<close>s and a host name. Every method
  of \<^verbatim>\<open>*DB\<close> is embedded as a function that takes the database and returns the
  method's results together with the database it leaves behind. The
  \<^verbatim>\<open>context.Context\<close> argument is never read by the source and is dropped.
\<close>

subsection \<open>Values of the libraries the source calls\<close>

text \<open>
  \<^verbatim>\<open>*url.URL\<close>: the source reads the field \<^verbatim>\<open>Host\<close> and calls \<^verbatim>\<open>String()\<close>.
  \<open>url_String\<close> is the rendering of \<^verbatim>\<open>net/url\<close> for a hierarchical URL with a
  scheme, a host and an absolute path (no user info, query or fragment, nothing
  to escape). The host is kept as it was written: \<^verbatim>\<open>net/url\<close> does not fold its
  case.
\<close>

record url =
  Scheme :: string
  Host :: string
  Path :: string

definition url_String :: "url \<Rightarrow> string" where
  "url_String u = Scheme u @ ''://'' @ Host u @ Path u"

text \<open>
  A Go \<^verbatim>\<open>error\<close> value. \<open>errors_New msg\<close> is \<^verbatim>\<open>errors.New(msg)\<close>; the two other
  constructors are the errors of \<^verbatim>\<open>pub.GetId\<close> and \<^verbatim>\<open>pub.ToId\<close> of go-fed.
\<close>

datatype error = errors_New string | pub_GetId_error | pub_ToId_error

text \<open>
  \<^verbatim>\<open>vocab.Type\<close>, any ActivityStreams value of go-fed. The model keeps what the
  source can observe: the identifier \<^verbatim>\<open>pub.GetId\<close> extracts (absent when the
  value carries none), the name of the type, and the \<^verbatim>\<open>orderedItems\<close> property
  (\<open>None\<close> is Go's nil property). An element of \<^verbatim>\<open>orderedItems\<close> holds an IRI, an
  embedded value, or neither.
\<close>

datatype vocab_Type =
  Type (type_id: "url option") (type_name: string)
       (GetActivityStreamsOrderedItems: "item list option")
and item = ItemIRI url | ItemType vocab_Type | ItemUnknown

definition GetId :: "vocab_Type \<Rightarrow> error + url" where
  "GetId t = (case type_id t of Some u \<Rightarrow> Inr u | None \<Rightarrow> Inl pub_GetId_error)"

fun ToId :: "item \<Rightarrow> error + url" where
  "ToId (ItemType t) = GetId t"
| "ToId (ItemIRI u) = Inr u"
| "ToId ItemUnknown = Inl pub_ToId_error"

text \<open>
  \<^verbatim>\<open>sync.Map\<close>, as a map; each method of it is one atomic operation. \<open>LoadOrStore\<close>
  returns the value found (and \<open>True\<close>) or stores the given one (and returns it
  with \<open>False\<close>).
\<close>

definition Load :: "('k \<rightharpoonup> 'v) \<Rightarrow> 'k \<Rightarrow> 'v option" where
  "Load m k = m k"

definition Store :: "('k \<rightharpoonup> 'v) \<Rightarrow> 'k \<Rightarrow> 'v \<Rightarrow> ('k \<rightharpoonup> 'v)" where
  "Store m k v = m(k \<mapsto> v)"

definition LoadOrStore :: "('k \<rightharpoonup> 'v) \<Rightarrow> 'k \<Rightarrow> 'v \<Rightarrow> ('v \<times> bool) \<times> ('k \<rightharpoonup> 'v)" where
  "LoadOrStore m k v =
     (case m k of Some a \<Rightarrow> ((a, True), m) | None \<Rightarrow> ((v, False), m(k \<mapsto> v)))"

text \<open>
  \<^verbatim>\<open>sync.Mutex\<close> objects live in the Go heap: \<open>held h a\<close> tells whether the mutex
  at address \<open>a\<close> is locked, \<open>next_addr h\<close> is the next address \<^verbatim>\<open>&sync.Mutex{}\<close>
  hands out. \<open>Mutex_Lock\<close> is \<open>None\<close> while the mutex is held (the caller
  waits); \<open>Mutex_Unlock\<close> is \<open>None\<close> on a mutex that is not held (the Go runtime
  stops the program: "fatal error: sync: unlock of unlocked mutex").
\<close>

type_synonym addr = nat

record heap =
  held :: "addr \<Rightarrow> bool"
  next_addr :: addr

definition new_Mutex :: "heap \<Rightarrow> addr \<times> heap" where
  "new_Mutex h = (next_addr h, h\<lparr>held := (held h)(next_addr h := False), next_addr := Suc (next_addr h)\<rparr>)"

definition Mutex_Lock :: "heap \<Rightarrow> addr \<Rightarrow> heap option" where
  "Mutex_Lock h a = (if held h a then None else Some (h\<lparr>held := (held h)(a := True)\<rparr>))"

definition Mutex_Unlock :: "heap \<Rightarrow> addr \<Rightarrow> heap option" where
  "Mutex_Unlock h a = (if held h a then Some (h\<lparr>held := (held h)(a := False)\<rparr>) else None)"

subsection \<open>The database\<close>

record DBContent =
  data :: vocab_Type
  isLocal :: bool

record DB =
  content :: "string \<rightharpoonup> DBContent"
  locks :: "string \<rightharpoonup> addr"
  hostname :: string

definition Construct :: "(string \<rightharpoonup> DBContent) \<Rightarrow> (string \<rightharpoonup> addr) \<Rightarrow> string \<Rightarrow> DB" where
  "Construct c l h = \<lparr>content = c, locks = l, hostname = h\<rparr>"

text \<open>
  How a call ends: it returns, or the Go runtime stops the program.
\<close>

datatype 'a outcome = Returns 'a | Fatal string

text \<open>
  \<^verbatim>\<open>Unlock\<close> (lines 52 to 64): an identifier without entry in \<^verbatim>\<open>m.locks\<close> gives the
  error; otherwise the mutex found is unlocked and nil is returned.
\<close>

definition Unlock :: "heap \<Rightarrow> DB \<Rightarrow> url \<Rightarrow> error option outcome \<times> heap \<times> DB" where
  "Unlock h m id' =
     (case Load (locks m) (url_String id') of
        None \<Rightarrow> (Returns (Some (errors_New ''Missing an id in Unlock'')), h, m)
      | Some mu \<Rightarrow>
          (case Mutex_Unlock h mu of
             None \<Rightarrow> (Fatal ''sync: unlock of unlocked mutex'', h, m)
           | Some h' \<Rightarrow> (Returns None, h', m)))"

text \<open>\<^verbatim>\<open>Owns\<close> (lines 66 to 72): \<^verbatim>\<open>id.Host == m.hostname\<close>, Go's equality of strings.\<close>

definition Owns :: "DB \<Rightarrow> url \<Rightarrow> (bool \<times> error option) \<times> DB" where
  "Owns m id' = ((Host id' = hostname m, None), m)"

text \<open>\<^verbatim>\<open>Exists\<close> (lines 74 to 79).\<close>

definition Exists :: "DB \<Rightarrow> url \<Rightarrow> (bool \<times> error option) \<times> DB" where
  "Exists m id' =
     (case Load (content m) (url_String id') of
        None \<Rightarrow> ((False, None), m)
      | Some _ \<Rightarrow> ((True, None), m))"

text \<open>
  \<^verbatim>\<open>Get\<close> (lines 81 to 93). The source asserts the loaded value to \<^verbatim>\<open>*content\<close>, a
  type the package does not declare, and returns \<^verbatim>\<open>con.data\<close> alone; the model
  reads them as \<^verbatim>\<open>*DBContent\<close>, the type \<^verbatim>\<open>Create\<close> stores, and as
  \<^verbatim>\<open>con.data, nil\<close>.
\<close>

definition Get :: "DB \<Rightarrow> url \<Rightarrow> (error + vocab_Type) \<times> DB" where
  "Get m id' =
     (case Load (content m) (url_String id') of
        None \<Rightarrow> (Inl (errors_New ''Get failed''), m)
      | Some con \<Rightarrow> (Inr (data con), m))"

text \<open>
  \<^verbatim>\<open>Create\<close> (lines 95 to 114). The source calls \<^verbatim>\<open>m.Owns(id)\<close> without the
  context; the model reads it as \<^verbatim>\<open>m.Owns(c, id)\<close>.
\<close>

definition Create :: "DB \<Rightarrow> vocab_Type \<Rightarrow> error option \<times> DB" where
  "Create m asType =
     (case GetId asType of
        Inl err \<Rightarrow> (Some err, m)
      | Inr id' \<Rightarrow>
          (case Owns m id' of
             ((owns, Some err), m1) \<Rightarrow> (Some err, m1)
           | ((owns, None), m1) \<Rightarrow>
               (None, m1\<lparr>content := Store (content m1) (url_String id')
                                      \<lparr>data = asType, isLocal = owns\<rparr>\<rparr>)))"

text \<open>\<^verbatim>\<open>Update\<close> (lines 116 to 125): \<^verbatim>\<open>return m.Create(c, asType)\<close>.\<close>

definition Update :: "DB \<Rightarrow> vocab_Type \<Rightarrow> error option \<times> DB" where
  "Update m asType = Create m asType"

text \<open>
  \<^verbatim>\<open>InboxContains\<close> (lines 134 to 170). The helper \<^verbatim>\<open>getOrderedCollection\<close> is
  not part of the source ("It is not implemented in this tutorial, and uses the
  map m.content to do the lookup"); it is the parameter \<open>getOC\<close>, a read of the
  database. \<open>InboxContains_loop\<close> is the \<^verbatim>\<open>for\<close> loop over the iterators of
  \<^verbatim>\<open>ordered_items\<close>: the first element whose identifier cannot be extracted ends
  the call with that error, the first element with the wanted identifier ends
  it with \<^verbatim>\<open>contains = true\<close>.
\<close>

fun InboxContains_loop :: "item list \<Rightarrow> url \<Rightarrow> bool \<times> error option" where
  "InboxContains_loop [] id' = (False, None)"
| "InboxContains_loop (iter # rest) id' =
     (case ToId iter of
        Inl err \<Rightarrow> (False, Some err)
      | Inr iterId \<Rightarrow>
          if url_String iterId = url_String id' then (True, None)
          else InboxContains_loop rest id')"

definition InboxContains ::
  "(DB \<Rightarrow> url \<Rightarrow> error + vocab_Type) \<Rightarrow> DB \<Rightarrow> url \<Rightarrow> url \<Rightarrow> (bool \<times> error option) \<times> DB" where
  "InboxContains getOC m inbox id' =
     (case getOC m inbox of
        Inl err \<Rightarrow> ((False, Some err), m)
      | Inr oc \<Rightarrow>
          (case GetActivityStreamsOrderedItems oc of
             None \<Rightarrow> ((False, None), m)
           | Some oi \<Rightarrow> (InboxContains_loop oi id', m)))"

text \<open>
  \<^verbatim>\<open>Delete\<close> (lines 127 to 132). The body is \<^verbatim>\<open>m.Delete(id.String())\<close> followed
  by \<^verbatim>\<open>return nil\<close>. The receiver \<open>m\<close> is the \<^verbatim>\<open>*DB\<close>, whose only method of that
  name is this one; \<^verbatim>\<open>sync.Map\<close> is a named field of \<^verbatim>\<open>DB\<close>, not an embedded
  one, so its \<^verbatim>\<open>Delete\<close> is not reached through \<open>m\<close>. As written the method
  calls itself before anything else, and \<^verbatim>\<open>m.content\<close> is not mentioned. A call
  that does not return is the value \<open>None\<close>.
\<close>

partial_function (option) Delete :: "DB \<Rightarrow> url \<Rightarrow> (error option \<times> DB) option" where
  "Delete m id' = Option.bind (Delete m id') (\<lambda>(_, m1). Some (None, m1))"

subsection \<open>Goroutines that run \<^verbatim>\<open>Lock\<close>\<close>

text \<open>
  \<^verbatim>\<open>Lock\<close> (lines 35 to 50) is run by several goroutines at once, so it is
  embedded statement by statement. A goroutine is the identifier it was called
  with and the place it has reached:
  \<^item> \<open>AtNew\<close>: before line 42, \<^verbatim>\<open>mu := &sync.Mutex{}\<close>;
  \<^item> \<open>AtOwnLock mu\<close>: before line 43, \<^verbatim>\<open>mu.Lock()\<close> on the fresh mutex;
  \<^item> \<open>AtLoadOrStore mu\<close>: before line 44, \<^verbatim>\<open>m.locks.LoadOrStore(id.String(), mu)\<close>;
  \<^item> \<open>AtStoredLock i\<close>: \<open>loaded\<close> was true, before line 47, \<^verbatim>\<open>mu.Lock()\<close> on the
    mutex found in the registry;
  \<^item> \<open>Returned mu\<close>: line 49, \<^verbatim>\<open>return nil\<close>, with \<open>mu\<close> the mutex it locked.

  Each statement is one step; \<^verbatim>\<open>LoadOrStore\<close> is one step because \<^verbatim>\<open>sync.Map\<close>
  makes it atomic. A goroutine whose \<^verbatim>\<open>mu.Lock()\<close> finds the mutex held stays
  where it is.
\<close>

datatype pc = AtNew | AtOwnLock addr | AtLoadOrStore addr | AtStoredLock addr | Returned addr

record goroutine =
  arg :: url
  at :: pc

definition key_of :: "goroutine \<Rightarrow> string" where
  "key_of g = url_String (arg g)"

definition Lock_step :: "heap \<Rightarrow> DB \<Rightarrow> goroutine \<Rightarrow> heap \<times> DB \<times> goroutine" where
  "Lock_step h m g =
     (case at g of
        AtNew \<Rightarrow> (case new_Mutex h of (mu, h') \<Rightarrow> (h', m, g\<lparr>at := AtOwnLock mu\<rparr>))
      | AtOwnLock mu \<Rightarrow>
          (case Mutex_Lock h mu of
             None \<Rightarrow> (h, m, g)
           | Some h' \<Rightarrow> (h', m, g\<lparr>at := AtLoadOrStore mu\<rparr>))
      | AtLoadOrStore mu \<Rightarrow>
          (case LoadOrStore (locks m) (url_String (arg g)) mu of
             ((i, loaded), l') \<Rightarrow>
               (h, m\<lparr>locks := l'\<rparr>, g\<lparr>at := (if loaded then AtStoredLock i else Returned mu)\<rparr>))
      | AtStoredLock mu \<Rightarrow>
          (case Mutex_Lock h mu of
             None \<Rightarrow> (h, m, g)
           | Some h' \<Rightarrow> (h', m, g\<lparr>at := Returned mu\<rparr>))
      | Returned mu \<Rightarrow> (h, m, g))"

text \<open>
  The whole program: the heap of mutexes, the database, and the goroutines. A
  schedule is the list of the goroutines' indices in the order in which they
  take their steps.
\<close>

record world =
  mutexes :: heap
  db :: DB
  goroutines :: "goroutine list"

definition sched_step :: "nat \<Rightarrow> world \<Rightarrow> world" where
  "sched_step i w =
     (if i < length (goroutines w) then
        (case Lock_step (mutexes w) (db w) (goroutines w ! i) of
           (h', m', g') \<Rightarrow> \<lparr>mutexes = h', db = m', goroutines = (goroutines w)[i := g']\<rparr>)
      else w)"

definition run_schedule :: "nat list \<Rightarrow> world \<Rightarrow> world" where
  "run_schedule sched w = fold sched_step sched w"



text \<open>
  \<^verbatim>\<open>Lock\<close> called by one goroutine alone: its four statements in a row. The
  result is \<open>None\<close> when the goroutine waits for a mutex nobody will release.
\<close>

definition Lock :: "heap \<Rightarrow> DB \<Rightarrow> url \<Rightarrow> (error option \<times> heap \<times> DB) option" where
  "Lock h m id' =
     (let w = run_schedule [0, 0, 0, 0]
                \<lparr>mutexes = h, db = m, goroutines = [\<lparr>arg = id', at = AtNew\<rparr>]\<rparr>
      in case at (goroutines w ! 0) of
           Returned mu \<Rightarrow> Some (None, mutexes w, db w)
         | _ \<Rightarrow> None)"

subsection \<open>Pages of an ordered collection\<close>

text \<open>
  \<^verbatim>\<open>SetInbox\<close> (lines 184 to 207) calls three helpers that the source leaves "as
  an exercise for the reader". They are modelled from the specification.

  An \<^verbatim>\<open>OrderedCollectionPage\<close> is "a bounded view (offset/cursor + items) over an
  OrderedCollection": the collection it is a part of, the window of the full
  collection it was read from (offset and limit), and its items.
\<close>

record OrderedCollectionPage =
  partOf :: url
  page_offset :: nat
  page_limit :: nat
  page_items :: "item list"

text \<open>
  Modelled from the spec: \<^verbatim>\<open>getOrderedCollection\<close>, which the source does not
  implement. It "loads the full OrderedCollection" with a lookup in
  \<^verbatim>\<open>m.content\<close> and fails with \<^verbatim>\<open>NotFound\<close> when the identifier resolves to no
  document.
\<close>

definition getOrderedCollection :: "DB \<Rightarrow> url \<Rightarrow> error + vocab_Type" where
  "getOrderedCollection m iri =
     (case Load (content m) (url_String iri) of
        None \<Rightarrow> Inl (errors_New ''NotFound'')
      | Some con \<Rightarrow> Inr (data con))"

definition full_items :: "vocab_Type \<Rightarrow> item list" where
  "full_items oc = (case GetActivityStreamsOrderedItems oc of None \<Rightarrow> [] | Some oi \<Rightarrow> oi)"

text \<open>
  Modelled from the spec: \<^verbatim>\<open>getOrderedCollectionPage\<close>, which the source does not
  implement. \<^verbatim>\<open>GetPage\<close> "resolves a bounded slice of the full collection
  according to pagination parameters (cursor or offset + limit)".
\<close>

definition getOrderedCollectionPage ::
  "DB \<Rightarrow> url \<Rightarrow> nat \<Rightarrow> nat \<Rightarrow> error + OrderedCollectionPage" where
  "getOrderedCollectionPage m iri off lim =
     (case getOrderedCollection m iri of
        Inl err \<Rightarrow> Inl err
      | Inr oc \<Rightarrow>
          Inr \<lparr>partOf = iri, page_offset = off, page_limit = lim,
               page_items = take lim (drop off (full_items oc))\<rparr>)"

text \<open>
  Modelled from the spec: \<^verbatim>\<open>applyDiffOrderedCollection\<close>, which the source does
  not implement. The page is compared "against the corresponding slice of the
  previously-known state" and the edit is applied "to the full collection (not a
  blind overwrite of the whole collection with the page's partial contents)":
  the items before and after the page's window stay, the window takes the
  page's items, inserted ones at the place the page gives them, removed ones
  gone. The order of the page is kept inside its window.
\<close>

definition applyDiffOrderedCollection :: "vocab_Type \<Rightarrow> OrderedCollectionPage \<Rightarrow> vocab_Type" where
  "applyDiffOrderedCollection stored page =
     Type (type_id stored) (type_name stored)
       (Some (take (page_offset page) (full_items stored)
              @ page_items page
              @ drop (page_offset page + page_limit page) (full_items stored)))"

text \<open>
  Modelled from the spec: \<^verbatim>\<open>saveToContent\<close>, which the source does not
  implement. \<^verbatim>\<open>SetPage\<close> "persists the result via ResourceStore.Update".
\<close>

definition saveToContent :: "DB \<Rightarrow> vocab_Type \<Rightarrow> error option \<times> DB" where
  "saveToContent m t = Update m t"

text \<open>
  \<^verbatim>\<open>GetInbox\<close> (lines 172 to 182) and \<^verbatim>\<open>SetInbox\<close> (lines 184 to 207), as the
  source writes them over the helpers. The source's \<^verbatim>\<open>inboxIRI\<close> in \<^verbatim>\<open>SetInbox\<close>
  is not declared there; it is read as the collection the page is a part of.
\<close>

definition GetInbox :: "DB \<Rightarrow> url \<Rightarrow> nat \<Rightarrow> nat \<Rightarrow> (error + OrderedCollectionPage) \<times> DB" where
  "GetInbox m inboxIRI off lim = (getOrderedCollectionPage m inboxIRI off lim, m)"

definition SetInbox :: "DB \<Rightarrow> OrderedCollectionPage \<Rightarrow> error option \<times> DB" where
  "SetInbox m inbox =
     (case getOrderedCollection m (partOf inbox) of
        Inl err \<Rightarrow> (Some err, m)
      | Inr storedInbox \<Rightarrow>
          (let updatedInbox = applyDiffOrderedCollection storedInbox inbox
           in saveToContent m updatedInbox))"

subsection \<open>What holds in every state the goroutines can reach\<close>









subsection \<open>The words of the specification\<close>

text \<open>
  The specification compares hosts "case-insensitively". \<open>equal_fold\<close> is that
  comparison on ASCII letters; it is the specification's, not the source's.
\<close>

definition ascii_lower :: "char \<Rightarrow> char" where
  "ascii_lower c =
     (if 65 \<le> (of_char c :: nat) \<and> (of_char c :: nat) \<le> 90
      then char_of ((of_char c :: nat) + 32) else c)"

definition equal_fold :: "string \<Rightarrow> string \<Rightarrow> bool" where
  "equal_fold a b \<longleftrightarrow> map ascii_lower a = map ascii_lower b"




subsection \<open>Values used in the examples\<close>

text \<open>
  An identifier on the host "localhost"; a \<^verbatim>\<open>getOrderedCollection\<close> that finds the
  collection \<open>oc\<close>; the heap in which no mutex is locked.
\<close>

definition local_iri :: "string \<Rightarrow> url" where
  "local_iri p = \<lparr>Scheme = ''https'', Host = ''localhost'', Path = p\<rparr>"


definition unlocked :: "addr \<Rightarrow> bool" where
  "unlocked a = False"



section \<open>Properties\<close>

subsection \<open>Unlock\<close>

text \<open>
  The state in which an entry exists and is not held is the one a matched pair
  of calls leaves behind: \<^verbatim>\<open>Lock\<close> on an empty registry installs mutex 0, and
  \<^verbatim>\<open>Unlock\<close> releases it.
\<close>

lemma Lock_then_Unlock:
  "Lock \<lparr>held = unlocked, next_addr = 0\<rparr> (Construct Map.empty Map.empty ''localhost'')
        \<lparr>Scheme = ''https'', Host = ''localhost'', Path = ''/inbox''\<rparr>
     = Some (None, \<lparr>held = unlocked(0 := True), next_addr = Suc 0\<rparr>,
             Construct Map.empty [''https://localhost/inbox'' \<mapsto> 0] ''localhost'')
   \<and> Unlock \<lparr>held = unlocked(0 := True), next_addr = Suc 0\<rparr>
        (Construct Map.empty [''https://localhost/inbox'' \<mapsto> 0] ''localhost'')
        \<lparr>Scheme = ''https'', Host = ''localhost'', Path = ''/inbox''\<rparr>
     = (Returns None, \<lparr>held = unlocked, next_addr = Suc 0\<rparr>,
        Construct Map.empty [''https://localhost/inbox'' \<mapsto> 0] ''localhost'')"
  by (simp add: Lock_def run_schedule_def sched_step_def Lock_step_def new_Mutex_def
      Mutex_Lock_def LoadOrStore_def Unlock_def Load_def Mutex_Unlock_def Construct_def
      url_String_def fun_eq_iff unlocked_def)

text \<open>
  C2, as stated: \<^verbatim>\<open>Unlock\<close> of an identifier whose entry exists but is not held
  returns the error. It does not: \<^verbatim>\<open>Unlock\<close> finds the mutex and unlocks it, and
  unlocking a \<^verbatim>\<open>sync.Mutex\<close> that is not locked stops the program.
\<close>

theorem Unlock_not_held_counterexample:
  "fst (Unlock \<lparr>held = unlocked, next_addr = Suc 0\<rparr>
          (Construct Map.empty [''https://localhost/inbox'' \<mapsto> 0] ''localhost'')
          \<lparr>Scheme = ''https'', Host = ''localhost'', Path = ''/inbox''\<rparr>)
   = Fatal ''sync: unlock of unlocked mutex''"
  by (simp add: Unlock_def Load_def Mutex_Unlock_def Construct_def url_String_def unlocked_def)

text \<open>
  C2, amended: \<^verbatim>\<open>Unlock\<close> returns an error exactly when the identifier has no
  entry in the lock registry, and then it is the error "Missing an id in Unlock"
  and nothing changes. It returns nil exactly when the entry exists and its
  mutex is held, so it never succeeds on an identifier without outstanding
  lock; the mutex is then released.
\<close>

theorem Unlock_error_iff_missing:
  "((\<exists>e. fst (Unlock h m id') = Returns (Some e)) \<longleftrightarrow> locks m (url_String id') = None)
   \<and> (locks m (url_String id') = None \<longrightarrow>
        Unlock h m id' = (Returns (Some (errors_New ''Missing an id in Unlock'')), h, m))
   \<and> (fst (Unlock h m id') = Returns None \<longleftrightarrow>
        (\<exists>mu. locks m (url_String id') = Some mu \<and> held h mu))
   \<and> (\<forall>mu. locks m (url_String id') = Some mu \<and> held h mu \<longrightarrow>
        Unlock h m id' = (Returns None, h\<lparr>held := (held h)(mu := False)\<rparr>, m))"
  by (auto simp: Unlock_def Load_def Mutex_Unlock_def split: option.splits)

theorem Unlock_error_iff_missing_witness:
  "locks (Construct Map.empty Map.empty ''localhost'') (url_String \<lparr>Scheme = ''https'', Host = ''localhost'', Path = ''/inbox''\<rparr>) = None
   \<and> Unlock \<lparr>held = unlocked, next_addr = 0\<rparr> (Construct Map.empty Map.empty ''localhost'')
        \<lparr>Scheme = ''https'', Host = ''localhost'', Path = ''/inbox''\<rparr>
     = (Returns (Some (errors_New ''Missing an id in Unlock'')),
        \<lparr>held = unlocked, next_addr = 0\<rparr>, Construct Map.empty Map.empty ''localhost'')"
  using Unlock_error_iff_missing
    [of "\<lparr>held = unlocked, next_addr = 0\<rparr>" "Construct Map.empty Map.empty ''localhost''"
        "\<lparr>Scheme = ''https'', Host = ''localhost'', Path = ''/inbox''\<rparr>"]
  by (simp add: Construct_def)

subsection \<open>Owns\<close>

text \<open>
  C4, as stated: with the host name "other.example", \<^verbatim>\<open>Owns\<close> of
  "https://OTHER.example/users/x" is true. It is false, although the two hosts
  are equal up to case: the source compares the strings with \<^verbatim>\<open>==\<close>.
\<close>

theorem Owns_case_counterexample:
  "equal_fold (Host \<lparr>Scheme = ''https'', Host = ''OTHER.example'', Path = ''/users/x''\<rparr>)
              (hostname (Construct Map.empty Map.empty ''other.example''))
   \<and> fst (Owns (Construct Map.empty Map.empty ''other.example'')
             \<lparr>Scheme = ''https'', Host = ''OTHER.example'', Path = ''/users/x''\<rparr>)
       = (False, None)"
  by code_simp

text \<open>
  C4, amended: \<^verbatim>\<open>Owns\<close> is true if and only if the host of the identifier is the
  configured host name, character for character, and it returns no error. When
  it is true the hosts are also equal up to case.
\<close>

theorem Owns_exact_host:
  "fst (Owns m id') = (Host id' = hostname m, None)
   \<and> (fst (fst (Owns m id')) \<longrightarrow> equal_fold (Host id') (hostname m))"
  by (simp add: Owns_def equal_fold_def)

theorem Owns_exact_host_witness:
  "fst (Owns (Construct Map.empty Map.empty ''other.example'')
          \<lparr>Scheme = ''https'', Host = ''other.example'', Path = ''/users/x''\<rparr>) = (True, None)
   \<and> equal_fold ''other.example'' ''other.example''
   \<and> fst (Owns (Construct Map.empty Map.empty ''elsewhere.example'')
          \<lparr>Scheme = ''https'', Host = ''OTHER.example'', Path = ''/users/x''\<rparr>) = (False, None)"
  using Owns_exact_host
    [of "Construct Map.empty Map.empty ''other.example''"
        "\<lparr>Scheme = ''https'', Host = ''other.example'', Path = ''/users/x''\<rparr>"]
    Owns_exact_host
    [of "Construct Map.empty Map.empty ''elsewhere.example''"
        "\<lparr>Scheme = ''https'', Host = ''OTHER.example'', Path = ''/users/x''\<rparr>"]
  by (simp add: Construct_def)

subsection \<open>Create, Update, Get\<close>

lemma Create_with_id:
  "GetId doc = Inr id' \<Longrightarrow>
   Create m doc =
     (None, m\<lparr>content := (content m)(url_String id' \<mapsto>
                 \<lparr>data = doc, isLocal = (Host id' = hostname m)\<rparr>)\<rparr>)"
  by (simp add: Create_def Owns_def Store_def)



text \<open>
  C6: when the document carries an identifier that can be extracted and
  \<^verbatim>\<open>Create\<close> succeeds, \<^verbatim>\<open>Get\<close> on that identifier returns the document.
\<close>

theorem Create_Get_roundtrip:
  assumes "GetId doc = Inr id'" and "fst (Create m doc) = None"
  shows "fst (Get (snd (Create m doc)) id') = Inr doc"
  using assms by (simp add: Create_with_id Get_def Load_def)

theorem Create_Get_roundtrip_witness:
  "GetId (Type (Some \<lparr>Scheme = ''https'', Host = ''localhost'', Path = ''/notes/1''\<rparr>) ''Note'' None)
     = Inr \<lparr>Scheme = ''https'', Host = ''localhost'', Path = ''/notes/1''\<rparr>
   \<and> fst (Create (Construct Map.empty Map.empty ''localhost'')
           (Type (Some \<lparr>Scheme = ''https'', Host = ''localhost'', Path = ''/notes/1''\<rparr>) ''Note'' None))
       = None
   \<and> fst (Get (snd (Create (Construct Map.empty Map.empty ''localhost'')
                  (Type (Some \<lparr>Scheme = ''https'', Host = ''localhost'', Path = ''/notes/1''\<rparr>) ''Note'' None)))
             \<lparr>Scheme = ''https'', Host = ''localhost'', Path = ''/notes/1''\<rparr>)
       = Inr (Type (Some \<lparr>Scheme = ''https'', Host = ''localhost'', Path = ''/notes/1''\<rparr>) ''Note'' None)"
proof -
  let ?u = "\<lparr>Scheme = ''https'', Host = ''localhost'', Path = ''/notes/1''\<rparr>"
  let ?m = "Construct Map.empty Map.empty ''localhost''"
  have g: "GetId (Type (Some ?u) ''Note'' None) = Inr ?u"
    by (simp add: GetId_def)
  have c: "fst (Create ?m (Type (Some ?u) ''Note'' None)) = None"
    by (simp add: Create_with_id [OF g])
  from g c Create_Get_roundtrip [OF g c] show ?thesis by simp
qed



text \<open>
  C9: \<^verbatim>\<open>Update\<close> gives the result and the database that \<^verbatim>\<open>Create\<close> gives. With an
  identifier, the entry under it is the new one, whatever was there before, and
  every other entry, the lock registry and the host name are as they were.
\<close>

theorem Update_same_as_Create:
  "Update m doc = Create m doc
   \<and> (\<forall>id'. GetId doc = Inr id' \<longrightarrow>
        fst (Update m doc) = None
        \<and> content (snd (Update m doc)) (url_String id')
            = Some \<lparr>data = doc, isLocal = (Host id' = hostname m)\<rparr>
        \<and> (\<forall>k. k \<noteq> url_String id' \<longrightarrow> content (snd (Update m doc)) k = content m k)
        \<and> locks (snd (Update m doc)) = locks m
        \<and> hostname (snd (Update m doc)) = hostname m)"
  by (simp add: Update_def Create_with_id)

theorem Update_same_as_Create_witness:
  "GetId (Type (Some \<lparr>Scheme = ''https'', Host = ''localhost'', Path = ''/notes/1''\<rparr>) ''Note'' None)
     = Inr \<lparr>Scheme = ''https'', Host = ''localhost'', Path = ''/notes/1''\<rparr>
   \<and> content (snd (Update
         (Construct [''https://localhost/notes/1'' \<mapsto> \<lparr>data = Type None ''Old'' None, isLocal = False\<rparr>]
            Map.empty ''localhost'')
         (Type (Some \<lparr>Scheme = ''https'', Host = ''localhost'', Path = ''/notes/1''\<rparr>) ''Note'' None)))
       ''https://localhost/notes/1''
     = Some \<lparr>data = Type (Some \<lparr>Scheme = ''https'', Host = ''localhost'', Path = ''/notes/1''\<rparr>) ''Note'' None,
             isLocal = True\<rparr>"
  using Update_same_as_Create
    [of "Construct [''https://localhost/notes/1'' \<mapsto> \<lparr>data = Type None ''Old'' None, isLocal = False\<rparr>]
            Map.empty ''localhost''"
        "Type (Some \<lparr>Scheme = ''https'', Host = ''localhost'', Path = ''/notes/1''\<rparr>) ''Note'' None"]
  by (simp add: GetId_def url_String_def Construct_def Update_def Create_def Owns_def Store_def)

subsection \<open>Delete\<close>

lemma Delete_does_not_return: "Delete m id' = None"
proof (cases "Delete m id'")
  case None
  then show ?thesis .
next
  case (Some y)
  then have False
  proof (rule Delete.raw_induct [where P = "\<lambda>_ _ _. False", rotated])
    fix D :: "DB \<Rightarrow> url \<Rightarrow> (error option \<times> DB) option" and m1 i1 r
    assume ih: "\<And>m2 i2 y2. D m2 i2 = Some y2 \<Longrightarrow> False"
      and "Option.bind (D m1 i1) (\<lambda>(_, m3). Some (None, m3)) = Some r"
    then obtain y3 where "D m1 i1 = Some y3"
      by (auto split: Option.bind_splits)
    then show False by (rule ih)
  qed
  then show ?thesis ..
qed

text \<open>
  C5 says that \<^verbatim>\<open>Delete\<close> removes the entry of the identifier, so that \<^verbatim>\<open>Exists\<close>
  is false afterwards. The method as written never reaches \<^verbatim>\<open>m.content\<close>: on a
  database that holds an entry for the identifier, the call does not return a
  database in which the entry is gone; it does not return.
\<close>

theorem Delete_as_written:
  "fst (Exists (Construct [''https://localhost/notes/1'' \<mapsto> \<lparr>data = Type None ''Note'' None, isLocal = True\<rparr>]
                 Map.empty ''localhost'')
          \<lparr>Scheme = ''https'', Host = ''localhost'', Path = ''/notes/1''\<rparr>) = (True, None)
   \<and> Delete (Construct [''https://localhost/notes/1'' \<mapsto> \<lparr>data = Type None ''Note'' None, isLocal = True\<rparr>]
                 Map.empty ''localhost'')
          \<lparr>Scheme = ''https'', Host = ''localhost'', Path = ''/notes/1''\<rparr> = None"
  by (simp add: Delete_does_not_return Exists_def Load_def Construct_def url_String_def)

subsection \<open>The queries\<close>

text \<open>
  C10: \<^verbatim>\<open>Exists\<close>, \<^verbatim>\<open>Get\<close>, \<^verbatim>\<open>Owns\<close> and \<^verbatim>\<open>InboxContains\<close> return the database they
  were given: the content table and the lock registry are unchanged. (None of
  them takes the heap of mutexes.)
\<close>

theorem queries_leave_database:
  "snd (Exists m id') = m \<and> snd (Get m id') = m \<and> snd (Owns m id') = m
   \<and> snd (InboxContains getOC m inbox id') = m
   \<and> content (snd (InboxContains getOC m inbox id')) = content m
   \<and> locks (snd (InboxContains getOC m inbox id')) = locks m"
  by (simp add: Exists_def Get_def Owns_def InboxContains_def
      split: option.split sum.split)


subsection \<open>InboxContains\<close>








subsection \<open>Pages\<close>

lemma loop_IRIs:
  "InboxContains_loop (map ItemIRI us) x = (url_String x \<in> url_String ` set us, None)"
  by (induction us) auto

text \<open>
  C3: the stored collection holds the items \<open>pre @ old @ post\<close>, and the page is
  the view of the window \<open>old\<close>. When the page is submitted back with the items
  \<open>new\<close>, \<^verbatim>\<open>SetInbox\<close> succeeds and the stored collection holds
  \<open>pre @ new @ post\<close>: the items outside the window are untouched and in their
  places, the window has the page's items in the page's order. Every item of
  the submitted page is then found by \<^verbatim>\<open>InboxContains\<close>, and no other entry of
  the content table changes. With \<open>pre = [a]\<close>, \<open>old = [b, c]\<close>, \<open>post = [d, e]\<close>
  and \<open>new = [b, x, c]\<close> this is the example of the specification.
\<close>

theorem SetInbox_merges_page:
  assumes "content m (url_String cid) =
             Some \<lparr>data = Type (Some cid) tn (Some (map ItemIRI (pre @ old @ post))), isLocal = l\<rparr>"
    and "fst (GetInbox m cid (length pre) (length old)) = Inr page"
  shows "page_items page = map ItemIRI old
     \<and> fst (SetInbox m (page\<lparr>page_items := map ItemIRI new\<rparr>)) = None
     \<and> fst (Get (snd (SetInbox m (page\<lparr>page_items := map ItemIRI new\<rparr>))) cid)
         = Inr (Type (Some cid) tn (Some (map ItemIRI (pre @ new @ post))))
     \<and> (\<forall>x \<in> set new.
          fst (InboxContains getOrderedCollection
                 (snd (SetInbox m (page\<lparr>page_items := map ItemIRI new\<rparr>))) cid x) = (True, None))
     \<and> (\<forall>k. k \<noteq> url_String cid \<longrightarrow>
          content (snd (SetInbox m (page\<lparr>page_items := map ItemIRI new\<rparr>))) k = content m k)"
proof -
  let ?stored = "Type (Some cid) tn (Some (map ItemIRI (pre @ old @ post)))"
  let ?updated = "Type (Some cid) tn (Some (map ItemIRI (pre @ new @ post)))"
  from assms(1) have oc: "getOrderedCollection m cid = Inr ?stored"
    by (simp add: getOrderedCollection_def Load_def)
  with assms(2) have page: "page = \<lparr>partOf = cid, page_offset = length pre,
      page_limit = length old, page_items = map ItemIRI old\<rparr>"
    by (simp add: GetInbox_def getOrderedCollectionPage_def full_items_def drop_map take_map)
  have diff: "applyDiffOrderedCollection ?stored (page\<lparr>page_items := map ItemIRI new\<rparr>) = ?updated"
    by (simp add: page applyDiffOrderedCollection_def full_items_def)
  have id': "GetId ?updated = Inr cid"
    by (simp add: GetId_def)
  have set: "SetInbox m (page\<lparr>page_items := map ItemIRI new\<rparr>) =
      (None, m\<lparr>content := (content m)(url_String cid \<mapsto>
                 \<lparr>data = ?updated, isLocal = (Host cid = hostname m)\<rparr>)\<rparr>)"
    using oc diff
    by (simp add: SetInbox_def saveToContent_def Update_def Create_with_id [OF id'] page
        del: map_append)
  have "\<forall>x \<in> set new.
      fst (InboxContains getOrderedCollection
             (snd (SetInbox m (page\<lparr>page_items := map ItemIRI new\<rparr>))) cid x) = (True, None)"
    by (simp add: set InboxContains_def getOrderedCollection_def Load_def loop_IRIs
        del: map_append)
  moreover have "fst (Get (snd (SetInbox m (page\<lparr>page_items := map ItemIRI new\<rparr>))) cid)
      = Inr ?updated"
    by (simp add: set Get_def Load_def)
  moreover have "page_items page = map ItemIRI old"
    by (simp add: page)
  ultimately show ?thesis
    unfolding set by simp
qed

theorem SetInbox_merges_page_witness:
  "fst (GetInbox
      (Construct [url_String (local_iri ''/inbox'') \<mapsto>
          \<lparr>data = Type (Some (local_iri ''/inbox'')) ''OrderedCollection''
                   (Some (map ItemIRI [local_iri ''/a'', local_iri ''/b'', local_iri ''/c'',
                                       local_iri ''/d'', local_iri ''/e''])),
           isLocal = True\<rparr>] Map.empty ''localhost'')
      (local_iri ''/inbox'') 1 2)
    = Inr \<lparr>partOf = local_iri ''/inbox'', page_offset = 1, page_limit = 2,
           page_items = map ItemIRI [local_iri ''/b'', local_iri ''/c'']\<rparr>
   \<and> fst (Get (snd (SetInbox
      (Construct [url_String (local_iri ''/inbox'') \<mapsto>
          \<lparr>data = Type (Some (local_iri ''/inbox'')) ''OrderedCollection''
                   (Some (map ItemIRI [local_iri ''/a'', local_iri ''/b'', local_iri ''/c'',
                                       local_iri ''/d'', local_iri ''/e''])),
           isLocal = True\<rparr>] Map.empty ''localhost'')
      \<lparr>partOf = local_iri ''/inbox'', page_offset = 1, page_limit = 2,
        page_items = map ItemIRI [local_iri ''/b'', local_iri ''/x'', local_iri ''/c'']\<rparr>))
      (local_iri ''/inbox''))
    = Inr (Type (Some (local_iri ''/inbox'')) ''OrderedCollection''
            (Some (map ItemIRI [local_iri ''/a'', local_iri ''/b'', local_iri ''/x'',
                                local_iri ''/c'', local_iri ''/d'', local_iri ''/e''])))
   \<and> fst (InboxContains getOrderedCollection (snd (SetInbox
      (Construct [url_String (local_iri ''/inbox'') \<mapsto>
          \<lparr>data = Type (Some (local_iri ''/inbox'')) ''OrderedCollection''
                   (Some (map ItemIRI [local_iri ''/a'', local_iri ''/b'', local_iri ''/c'',
                                       local_iri ''/d'', local_iri ''/e''])),
           isLocal = True\<rparr>] Map.empty ''localhost'')
      \<lparr>partOf = local_iri ''/inbox'', page_offset = 1, page_limit = 2,
        page_items = map ItemIRI [local_iri ''/b'', local_iri ''/x'', local_iri ''/c'']\<rparr>))
      (local_iri ''/inbox'') (local_iri ''/x''))
    = (True, None)"
proof -
  let ?full = "[local_iri ''/a''] @ [local_iri ''/b'', local_iri ''/c'']
               @ [local_iri ''/d'', local_iri ''/e'']"
  let ?m = "Construct [url_String (local_iri ''/inbox'') \<mapsto>
      \<lparr>data = Type (Some (local_iri ''/inbox'')) ''OrderedCollection'' (Some (map ItemIRI ?full)),
       isLocal = True\<rparr>] Map.empty ''localhost''"
  let ?page = "\<lparr>partOf = local_iri ''/inbox'', page_offset = 1, page_limit = 2,
      page_items = map ItemIRI [local_iri ''/b'', local_iri ''/c'']\<rparr>"
  have stored: "content ?m (url_String (local_iri ''/inbox'')) =
      Some \<lparr>data = Type (Some (local_iri ''/inbox'')) ''OrderedCollection'' (Some (map ItemIRI ?full)),
            isLocal = True\<rparr>"
    by (simp add: Construct_def)
  have view: "fst (GetInbox ?m (local_iri ''/inbox'') (length [local_iri ''/a''])
                     (length [local_iri ''/b'', local_iri ''/c''])) = Inr ?page"
    by (simp add: GetInbox_def getOrderedCollectionPage_def getOrderedCollection_def Load_def
        Construct_def full_items_def)
  have "length [local_iri ''/a''] = 1" "length [local_iri ''/b'', local_iri ''/c''] = 2"
    by simp_all
  with view have view': "fst (GetInbox ?m (local_iri ''/inbox'') 1 2) = Inr ?page"
    by (simp only:)
  from SetInbox_merges_page [OF stored view,
      of "[local_iri ''/b'', local_iri ''/x'', local_iri ''/c'']"] view'
  show ?thesis by simp
qed

subsection \<open>Lock under every interleaving\<close>

lemma key_of_at [simp]: "key_of (g\<lparr>at := p\<rparr>) = key_of g"
  by (simp add: key_of_def)

lemma sched_step_out: "\<not> i < length (goroutines w) \<Longrightarrow> sched_step i w = w"
  by (simp add: sched_step_def)

lemma step_AtNew:
  "i < length (goroutines w) \<Longrightarrow> at (goroutines w ! i) = AtNew \<Longrightarrow>
   sched_step i w =
     \<lparr>mutexes = \<lparr>held = (held (mutexes w))(next_addr (mutexes w) := False),
                 next_addr = Suc (next_addr (mutexes w))\<rparr>,
      db = db w,
      goroutines = (goroutines w)[i := (goroutines w ! i)\<lparr>at := AtOwnLock (next_addr (mutexes w))\<rparr>]\<rparr>"
  by (simp add: sched_step_def Lock_step_def new_Mutex_def)

lemma step_blocked:
  "i < length (goroutines w) \<Longrightarrow>
   at (goroutines w ! i) = AtOwnLock a \<or> at (goroutines w ! i) = AtStoredLock a \<Longrightarrow>
   held (mutexes w) a \<Longrightarrow> sched_step i w = w"
  by (auto simp: sched_step_def Lock_step_def Mutex_Lock_def)

lemma step_AtOwnLock:
  "i < length (goroutines w) \<Longrightarrow> at (goroutines w ! i) = AtOwnLock a \<Longrightarrow> \<not> held (mutexes w) a \<Longrightarrow>
   sched_step i w =
     \<lparr>mutexes = \<lparr>held = (held (mutexes w))(a := True), next_addr = next_addr (mutexes w)\<rparr>,
      db = db w,
      goroutines = (goroutines w)[i := (goroutines w ! i)\<lparr>at := AtLoadOrStore a\<rparr>]\<rparr>"
  by (simp add: sched_step_def Lock_step_def Mutex_Lock_def)

lemma step_AtStoredLock:
  "i < length (goroutines w) \<Longrightarrow> at (goroutines w ! i) = AtStoredLock a \<Longrightarrow> \<not> held (mutexes w) a \<Longrightarrow>
   sched_step i w =
     \<lparr>mutexes = \<lparr>held = (held (mutexes w))(a := True), next_addr = next_addr (mutexes w)\<rparr>,
      db = db w,
      goroutines = (goroutines w)[i := (goroutines w ! i)\<lparr>at := Returned a\<rparr>]\<rparr>"
  by (simp add: sched_step_def Lock_step_def Mutex_Lock_def)

lemma step_store:
  "i < length (goroutines w) \<Longrightarrow> at (goroutines w ! i) = AtLoadOrStore a \<Longrightarrow>
   locks (db w) (key_of (goroutines w ! i)) = None \<Longrightarrow>
   sched_step i w =
     \<lparr>mutexes = mutexes w,
      db = (db w)\<lparr>locks := (locks (db w))(key_of (goroutines w ! i) \<mapsto> a)\<rparr>,
      goroutines = (goroutines w)[i := (goroutines w ! i)\<lparr>at := Returned a\<rparr>]\<rparr>"
  by (simp add: sched_step_def Lock_step_def LoadOrStore_def key_of_def)

lemma step_load:
  "i < length (goroutines w) \<Longrightarrow> at (goroutines w ! i) = AtLoadOrStore a \<Longrightarrow>
   locks (db w) (key_of (goroutines w ! i)) = Some b \<Longrightarrow>
   sched_step i w =
     \<lparr>mutexes = mutexes w,
      db = db w,
      goroutines = (goroutines w)[i := (goroutines w ! i)\<lparr>at := AtStoredLock b\<rparr>]\<rparr>"
  by (simp add: sched_step_def Lock_step_def LoadOrStore_def key_of_def)

lemma step_Returned:
  "i < length (goroutines w) \<Longrightarrow> at (goroutines w ! i) = Returned a \<Longrightarrow> sched_step i w = w"
  by (simp add: sched_step_def Lock_step_def)





lemma sched_step_cases [case_names idle new own store load stored]:
  obtains "sched_step i w = w"
  | "i < length (goroutines w)" "at (goroutines w ! i) = AtNew"
    "sched_step i w =
     \<lparr>mutexes = \<lparr>held = (held (mutexes w))(next_addr (mutexes w) := False),
                 next_addr = Suc (next_addr (mutexes w))\<rparr>,
      db = db w,
      goroutines = (goroutines w)[i := (goroutines w ! i)\<lparr>at := AtOwnLock (next_addr (mutexes w))\<rparr>]\<rparr>"
  | mu where "i < length (goroutines w)" "at (goroutines w ! i) = AtOwnLock mu"
    "\<not> held (mutexes w) mu"
    "sched_step i w =
     \<lparr>mutexes = \<lparr>held = (held (mutexes w))(mu := True), next_addr = next_addr (mutexes w)\<rparr>,
      db = db w,
      goroutines = (goroutines w)[i := (goroutines w ! i)\<lparr>at := AtLoadOrStore mu\<rparr>]\<rparr>"
  | mu where "i < length (goroutines w)" "at (goroutines w ! i) = AtLoadOrStore mu"
    "locks (db w) (key_of (goroutines w ! i)) = None"
    "sched_step i w =
     \<lparr>mutexes = mutexes w,
      db = (db w)\<lparr>locks := (locks (db w))(key_of (goroutines w ! i) \<mapsto> mu)\<rparr>,
      goroutines = (goroutines w)[i := (goroutines w ! i)\<lparr>at := Returned mu\<rparr>]\<rparr>"
  | mu b where "i < length (goroutines w)" "at (goroutines w ! i) = AtLoadOrStore mu"
    "locks (db w) (key_of (goroutines w ! i)) = Some b"
    "sched_step i w =
     \<lparr>mutexes = mutexes w, db = db w,
      goroutines = (goroutines w)[i := (goroutines w ! i)\<lparr>at := AtStoredLock b\<rparr>]\<rparr>"
  | mu where "i < length (goroutines w)" "at (goroutines w ! i) = AtStoredLock mu"
    "\<not> held (mutexes w) mu"
    "sched_step i w =
     \<lparr>mutexes = \<lparr>held = (held (mutexes w))(mu := True), next_addr = next_addr (mutexes w)\<rparr>,
      db = db w,
      goroutines = (goroutines w)[i := (goroutines w ! i)\<lparr>at := Returned mu\<rparr>]\<rparr>"
proof (cases "i < length (goroutines w)")
  case False
  then show ?thesis using that(1) by (simp add: sched_step_out)
next
  case len: True
  show ?thesis
  proof (cases "at (goroutines w ! i)")
    case AtNew
    then show ?thesis using len that(2) step_AtNew by blast
  next
    case (AtOwnLock mu)
    then show ?thesis using len that(1,3) step_blocked step_AtOwnLock by blast
  next
    case (AtLoadOrStore mu)
    then show ?thesis using len that(4,5) step_store step_load
      by (cases "locks (db w) (key_of (goroutines w ! i))") blast+
  next
    case (AtStoredLock mu)
    then show ?thesis using len that(1,6) step_blocked step_AtStoredLock by blast
  next
    case (Returned mu)
    then show ?thesis using len that(1) step_Returned by blast
  qed
qed



lemma length_step [simp]: "length (goroutines (sched_step i w)) = length (goroutines w)"
  by (cases i w rule: sched_step_cases) simp_all

lemma key_of_step [simp]:
  "j < length (goroutines w) \<Longrightarrow> key_of (goroutines (sched_step i w) ! j) = key_of (goroutines w ! j)"
  by (cases i w rule: sched_step_cases) (simp_all add: nth_list_update)




















end
